theory Spec2Isabelle
  imports Main "HOL-Library.Sublist"
begin

section \<open>Filename patterns\<close>

text \<open>
  \<^verbatim>\<open>fnmatch.fnmatch(name, pat)\<close> of the Python standard library, on a POSIX system:
  \<^verbatim>\<open>os.path.normcase\<close> is the identity there, so the test is \<^verbatim>\<open>fnmatchcase\<close>.
  A \<^verbatim>\<open>*\<close> of the pattern stands for any run of characters, a \<^verbatim>\<open>?\<close> for any one
  character, every other character for itself. Bracket expressions are left out:
  the three patterns of the script contain no \<^verbatim>\<open>[\<close>.
\<close>

fun fnmatchcase :: "string \<Rightarrow> string \<Rightarrow> bool" where
  "fnmatchcase [] [] = True"
| "fnmatchcase (c # cs) [] = False"
| "fnmatchcase [] (p # ps) = (p = CHR ''*'' \<and> fnmatchcase [] ps)"
| "fnmatchcase (c # cs) (p # ps) =
     (if p = CHR ''*'' then fnmatchcase (c # cs) ps \<or> fnmatchcase cs (p # ps)
      else if p = CHR ''?'' then fnmatchcase cs ps
      else p = c \<and> fnmatchcase cs ps)"

definition fnmatch :: "string \<Rightarrow> string \<Rightarrow> bool" where
  "fnmatch name pat = fnmatchcase name pat"

text \<open>A pattern without wildcards.\<close>

definition literal :: "string \<Rightarrow> bool" where
  "literal ps = (CHR ''*'' \<notin> set ps \<and> CHR ''?'' \<notin> set ps)"

section \<open>Locating the three dataset files\<close>

text \<open>
  The three variables \<^verbatim>\<open>train_file\<close>, \<^verbatim>\<open>dev_file\<close>, \<^verbatim>\<open>test_file\<close> of
  \<^verbatim>\<open>preprocess_SNLI_data\<close>, the body of its \<^verbatim>\<open>for file in os.listdir(inputdir)\<close>
  loop, and the loop itself, started from three empty strings.
\<close>

record files =
  train_file :: string
  dev_file :: string
  test_file :: string

definition select_step :: "files \<Rightarrow> string \<Rightarrow> files" where
  "select_step fs file =
     (if fnmatch file ''*_train.txt'' then fs\<lparr>train_file := file\<rparr>
      else if fnmatch file ''*_dev.txt'' then fs\<lparr>dev_file := file\<rparr>
      else if fnmatch file ''*_test.txt'' then fs\<lparr>test_file := file\<rparr>
      else fs)"

definition select_files :: "string list \<Rightarrow> files" where
  "select_files listing =
     foldl select_step \<lparr>train_file = '''', dev_file = '''', test_file = ''''\<rparr> listing"

text \<open>
  \<^verbatim>\<open>os.path.join(a, b)\<close> with two arguments, as \<^verbatim>\<open>posixpath.join\<close> computes it.
\<close>

definition os_path_join :: "string \<Rightarrow> string \<Rightarrow> string" where
  "os_path_join a b =
     (if b \<noteq> [] \<and> hd b = CHR ''/'' then b
      else if a = [] \<or> last a = CHR ''/'' then a @ b
      else a @ ''/'' @ b)"

section \<open>Python values, exceptions and the external collaborators\<close>

text \<open>The values a JSON configuration file can hold (numbers as integers).\<close>

datatype pyval =
    PNone
  | PBool bool
  | PInt int
  | PStr string
  | PList "pyval list"
  | PDict "(string \<times> pyval) list"

text \<open>
  \<^verbatim>\<open>KeyError\<close> and \<open>TypeError\<close> are the exceptions the script's own subscripts and
  calls can raise; \<open>Raised\<close> is any exception coming out of a library or system call.
\<close>

datatype exn =
    KeyError string
  | TypeError
  | AttributeError string
  | SystemExit int
  | Raised string

text \<open>The keyword arguments handed unchanged to the \<^verbatim>\<open>Preprocessor\<close> constructor.\<close>

record kwargs =
  lowercase :: pyval
  ignore_punctuation :: pyval
  num_words :: pyval
  stopwords :: pyval
  labeldict :: pyval
  bos :: pyval
  eos :: pyval

text \<open>
  An \<^verbatim>\<open>argparse\<close> parser as the list of its actions. \<^verbatim>\<open>ArgumentParser(description=...)\<close>
  has \<^verbatim>\<open>add_help=True\<close> by default, which registers the \<^verbatim>\<open>-h/--help\<close> action before
  any \<^verbatim>\<open>add_argument\<close> call. \<^verbatim>\<open>add_argument\<close> of one long option derives the
  destination from the option string.
\<close>

record action =
  option_strings :: "string list"
  dest :: string
  default_value :: pyval
  help_text :: string

record parser =
  description :: string
  actions :: "action list"

definition ArgumentParser :: "string \<Rightarrow> parser" where
  "ArgumentParser d =
     \<lparr>description = d,
      actions = [\<lparr>option_strings = [''-h'', ''--help''], dest = ''==SUPPRESS=='',
                  default_value = PStr ''==SUPPRESS=='',
                  help_text = ''show this help message and exit''\<rparr>]\<rparr>"

definition add_argument :: "parser \<Rightarrow> string \<Rightarrow> string \<Rightarrow> string \<Rightarrow> parser" where
  "add_argument p name dflt hlp =
     p\<lparr>actions := actions p @
        [\<lparr>option_strings = [name],
          dest = map (\<lambda>c. if c = CHR ''-'' then CHR ''_'' else c)
                   (dropWhile (\<lambda>c. c = CHR ''-'') name),
          default_value = PStr dflt, help_text = hlp\<rparr>]\<rparr>"

text \<open>The option strings a command line may use with this parser.\<close>

definition accepted_options :: "parser \<Rightarrow> string list" where
  "accepted_options p = concat (map option_strings (actions p))"

text \<open>
  Every interaction of the script with the outside: the operating system, the pickle and
  JSON modules, standard output, and the \<^verbatim>\<open>Preprocessor\<close> object of \<^verbatim>\<open>esim.data\<close>,
  whose methods take the object itself first. \<open>'v\<close> is the type of the objects the
  library returns (the preprocessor, datasets, the word dictionary, the matrix).
\<close>

datatype 'v call =
    OsPathExists string
  | OsMakedirs string
  | OsListdir string
  | NewPreprocessor kwargs
  | ReadData 'v string
  | BuildWorddict 'v 'v
  | GetWorddict 'v
  | TransformToIndices 'v 'v
  | BuildEmbeddingMatrix 'v string
  | OpenWb string
  | PickleDump 'v string
  | Print string
  | ParseArgs parser "string list"
  | OpenR string
  | JsonLoad string

datatype 'v result =
    Unit
  | Bool bool
  | Names "string list"
  | Obj 'v
  | Val pyval
  | Namespace "(string \<times> pyval) list"

text \<open>A call that returned, with its result, or a call that raised.\<close>

datatype 'v event =
    Done "'v call" "'v result"
  | Failed "'v call" exn

fun call_of :: "'v event \<Rightarrow> 'v call" where
  "call_of (Done c r) = c"
| "call_of (Failed c e) = c"

text \<open>
  The collaborators are parameters: each takes the external state \<open>'x\<close> (file system,
  object heap) and either raises or returns a result and the new state.
\<close>

record ('x, 'v) env =
  os_path_exists :: "string \<Rightarrow> 'x \<Rightarrow> bool"
  os_makedirs :: "string \<Rightarrow> 'x \<Rightarrow> exn + unit \<times> 'x"
  os_listdir :: "string \<Rightarrow> 'x \<Rightarrow> exn + string list \<times> 'x"
  os_path_normpath :: "string \<Rightarrow> string"
  open_wb :: "string \<Rightarrow> 'x \<Rightarrow> exn + unit \<times> 'x"
  pickle_dump :: "'v \<Rightarrow> string \<Rightarrow> 'x \<Rightarrow> exn + unit \<times> 'x"
  Preprocessor :: "kwargs \<Rightarrow> 'x \<Rightarrow> exn + 'v \<times> 'x"
  read_data :: "'v \<Rightarrow> string \<Rightarrow> 'x \<Rightarrow> exn + 'v \<times> 'x"
  build_worddict :: "'v \<Rightarrow> 'v \<Rightarrow> 'x \<Rightarrow> exn + unit \<times> 'x"
  worddict :: "'v \<Rightarrow> 'x \<Rightarrow> exn + 'v \<times> 'x"
  transform_to_indices :: "'v \<Rightarrow> 'v \<Rightarrow> 'x \<Rightarrow> exn + 'v \<times> 'x"
  build_embedding_matrix :: "'v \<Rightarrow> string \<Rightarrow> 'x \<Rightarrow> exn + 'v \<times> 'x"
  parse_args :: "parser \<Rightarrow> string list \<Rightarrow> 'x \<Rightarrow> exn + (string \<times> pyval) list \<times> 'x"
  open_r :: "string \<Rightarrow> 'x \<Rightarrow> exn + unit \<times> 'x"
  json_load :: "string \<Rightarrow> 'x \<Rightarrow> exn + pyval \<times> 'x"

section \<open>Scripts: state, exceptions and the trace of calls\<close>

record ('x, 'v) state =
  extern :: 'x
  trace :: "'v event list"

type_synonym ('x, 'v, 'a) script = "('x, 'v) state \<Rightarrow> (exn + 'a) \<times> ('x, 'v) state"

definition ret :: "'a \<Rightarrow> ('x, 'v, 'a) script" where
  "ret a s = (Inr a, s)"

definition raise :: "exn \<Rightarrow> ('x, 'v, 'a) script" where
  "raise e s = (Inl e, s)"

text \<open>Sequencing: an exception of the first part skips the rest.\<close>

definition seq :: "('x, 'v, 'a) script \<Rightarrow> ('a \<Rightarrow> ('x, 'v, 'b) script) \<Rightarrow> ('x, 'v, 'b) script" where
  "seq m f s = (case m s of (Inl e, s') \<Rightarrow> (Inl e, s') | (Inr a, s') \<Rightarrow> f a s')"

text \<open>An external call: it is recorded in the trace with its outcome.\<close>

definition call ::
  "'v call \<Rightarrow> ('x \<Rightarrow> exn + 'a \<times> 'x) \<Rightarrow> ('a \<Rightarrow> 'v result) \<Rightarrow> ('x, 'v, 'a) script" where
  "call c f r s =
     (case f (extern s) of
        Inl e \<Rightarrow> (Inl e, s\<lparr>trace := trace s @ [Failed c e]\<rparr>)
      | Inr (a, x) \<Rightarrow> (Inr a, s\<lparr>extern := x, trace := trace s @ [Done c (r a)]\<rparr>))"

definition print :: "string \<Rightarrow> ('x, 'v, unit) script" where
  "print txt = call (Print txt) (\<lambda>x. Inr ((), x)) (\<lambda>_. Unit)"

text \<open>
  \<^verbatim>\<open>print(20*"=", title, 20*"=")\<close> writes its three arguments separated by blanks.
\<close>

definition banner :: "string \<Rightarrow> string" where
  "banner title = replicate 20 CHR ''='' @ '' '' @ title @ '' '' @ replicate 20 CHR ''=''"

definition tab :: "string \<Rightarrow> string" where
  "tab txt = CHR 0x09 # txt"

text \<open>
  \<^verbatim>\<open>with open(path, 'wb') as pkl_file: pickle.dump(obj, pkl_file)\<close>, where \<open>obj\<close> is
  evaluated after the file has been opened.
\<close>

definition pickle_to ::
  "('x, 'v) env \<Rightarrow> string \<Rightarrow> ('x, 'v, 'v) script \<Rightarrow> ('x, 'v, unit) script" where
  "pickle_to env path obj =
     seq (call (OpenWb path) (open_wb env path) (\<lambda>_. Unit)) (\<lambda>_.
     seq obj (\<lambda>v.
     call (PickleDump v path) (pickle_dump env v path) (\<lambda>_. Unit)))"

section \<open>The function \<^verbatim>\<open>preprocess_SNLI_data\<close>\<close>

definition preprocess_SNLI_data ::
  "('x, 'v) env \<Rightarrow> string \<Rightarrow> string \<Rightarrow> string \<Rightarrow> kwargs \<Rightarrow> ('x, 'v, unit) script" where
  "preprocess_SNLI_data env inputdir embeddings_file targetdir kw =
     seq (call (OsPathExists targetdir)
            (\<lambda>x. Inr (os_path_exists env targetdir x, x)) Bool) (\<lambda>ex.
     seq (if \<not> ex then call (OsMakedirs targetdir) (os_makedirs env targetdir) (\<lambda>_. Unit)
          else ret ()) (\<lambda>_.
     seq (call (OsListdir inputdir) (os_listdir env inputdir) Names) (\<lambda>listing.
     let fs = select_files listing in
     seq (call (NewPreprocessor kw) (Preprocessor env kw) Obj) (\<lambda>preprocessor.
     seq (print (banner '' Preprocessing train set '')) (\<lambda>_.
     seq (print (tab ''* Reading data...'')) (\<lambda>_.
     seq (call (ReadData preprocessor (os_path_join inputdir (train_file fs)))
            (read_data env preprocessor (os_path_join inputdir (train_file fs))) Obj) (\<lambda>data.
     seq (print (tab ''* Computing worddict and saving it...'')) (\<lambda>_.
     seq (call (BuildWorddict preprocessor data)
            (build_worddict env preprocessor data) (\<lambda>_. Unit)) (\<lambda>_.
     seq (pickle_to env (os_path_join targetdir ''worddict.pkl'')
            (call (GetWorddict preprocessor) (worddict env preprocessor) Obj)) (\<lambda>_.
     seq (print (tab ''* Transforming words in premises and hypotheses to indices...'')) (\<lambda>_.
     seq (call (TransformToIndices preprocessor data)
            (transform_to_indices env preprocessor data) Obj) (\<lambda>transformed_data.
     seq (print (tab ''* Saving result...'')) (\<lambda>_.
     seq (pickle_to env (os_path_join targetdir ''train_data.pkl'') (ret transformed_data)) (\<lambda>_.
     seq (print (banner '' Preprocessing dev set '')) (\<lambda>_.
     seq (print (tab ''* Reading data...'')) (\<lambda>_.
     seq (call (ReadData preprocessor (os_path_join inputdir (dev_file fs)))
            (read_data env preprocessor (os_path_join inputdir (dev_file fs))) Obj) (\<lambda>data.
     seq (print (tab ''* Transforming words in premises and hypotheses to indices...'')) (\<lambda>_.
     seq (call (TransformToIndices preprocessor data)
            (transform_to_indices env preprocessor data) Obj) (\<lambda>transformed_data.
     seq (print (tab ''* Saving result...'')) (\<lambda>_.
     seq (pickle_to env (os_path_join targetdir ''dev_data.pkl'') (ret transformed_data)) (\<lambda>_.
     seq (print (banner '' Preprocessing test set '')) (\<lambda>_.
     seq (print (tab ''* Reading data...'')) (\<lambda>_.
     seq (call (ReadData preprocessor (os_path_join inputdir (test_file fs)))
            (read_data env preprocessor (os_path_join inputdir (test_file fs))) Obj) (\<lambda>data.
     seq (print (tab ''* Transforming words in premises and hypotheses to indices...'')) (\<lambda>_.
     seq (call (TransformToIndices preprocessor data)
            (transform_to_indices env preprocessor data) Obj) (\<lambda>transformed_data.
     seq (print (tab ''* Saving result...'')) (\<lambda>_.
     seq (pickle_to env (os_path_join targetdir ''test_data.pkl'') (ret transformed_data)) (\<lambda>_.
     seq (print (banner '' Preprocessing embeddings '')) (\<lambda>_.
     seq (print (tab ''* Building embedding matrices and saving them...'')) (\<lambda>_.
     seq (call (BuildEmbeddingMatrix preprocessor embeddings_file)
            (build_embedding_matrix env preprocessor embeddings_file) Obj) (\<lambda>embed_matrix.
     pickle_to env (os_path_join targetdir ''embeddings.pkl'') (ret embed_matrix)
     )))))))))))))))))))))))))))))))"

section \<open>The entry point\<close>

text \<open>The parser built under \<^verbatim>\<open>if __name__ == "__main__"\<close>.\<close>

definition cli_parser :: parser where
  "cli_parser =
     add_argument (ArgumentParser ''Preprocess an NLI dataset'')
       ''--config'' ''../config/preprocessing.json''
       ''Path to a configuration file for preprocessing''"

text \<open>
  The operations of the script itself that can raise: reading the attribute of the parsed
  arguments, subscripting the loaded configuration with a string key (only a dictionary
  supports that), and handing a value to \<^verbatim>\<open>os.path.normpath\<close> (only a string is a
  path).
\<close>

definition getattr :: "(string \<times> pyval) list \<Rightarrow> string \<Rightarrow> exn + pyval" where
  "getattr ns name =
     (case map_of ns name of None \<Rightarrow> Inl (AttributeError name) | Some v \<Rightarrow> Inr v)"

fun subscript :: "pyval \<Rightarrow> string \<Rightarrow> exn + pyval" where
  "subscript (PDict kvs) k =
     (case map_of kvs k of None \<Rightarrow> Inl (KeyError k) | Some v \<Rightarrow> Inr v)"
| "subscript v k = Inl TypeError"

fun normpath :: "('x, 'v) env \<Rightarrow> pyval \<Rightarrow> exn + string" where
  "normpath env (PStr p) = Inr (os_path_normpath env p)"
| "normpath env v = Inl TypeError"

definition lift :: "exn + 'a \<Rightarrow> ('x, 'v, 'a) script" where
  "lift v = (case v of Inl e \<Rightarrow> raise e | Inr a \<Rightarrow> ret a)"

definition main :: "('x, 'v) env \<Rightarrow> string list \<Rightarrow> ('x, 'v, unit) script" where
  "main env argv =
     seq (call (ParseArgs cli_parser argv) (parse_args env cli_parser argv) Namespace) (\<lambda>args.
     seq (lift (getattr args ''config'')) (\<lambda>cfg.
     seq (lift (normpath env cfg)) (\<lambda>cfg_path.
     seq (call (OpenR cfg_path) (open_r env cfg_path) (\<lambda>_. Unit)) (\<lambda>_.
     seq (call (JsonLoad cfg_path) (json_load env cfg_path) Val) (\<lambda>config.
     seq (lift (subscript config ''data_dir'')) (\<lambda>v.
     seq (lift (normpath env v)) (\<lambda>data_dir.
     seq (lift (subscript config ''embeddings_file'')) (\<lambda>v.
     seq (lift (normpath env v)) (\<lambda>embeddings_file.
     seq (lift (subscript config ''target_dir'')) (\<lambda>v.
     seq (lift (normpath env v)) (\<lambda>target_dir.
     seq (lift (subscript config ''lowercase'')) (\<lambda>v_lowercase.
     seq (lift (subscript config ''ignore_punctuation'')) (\<lambda>v_ignore_punctuation.
     seq (lift (subscript config ''num_words'')) (\<lambda>v_num_words.
     seq (lift (subscript config ''stopwords'')) (\<lambda>v_stopwords.
     seq (lift (subscript config ''labeldict'')) (\<lambda>v_labeldict.
     seq (lift (subscript config ''bos'')) (\<lambda>v_bos.
     seq (lift (subscript config ''eos'')) (\<lambda>v_eos.
     preprocess_SNLI_data env data_dir embeddings_file target_dir
       \<lparr>lowercase = v_lowercase, ignore_punctuation = v_ignore_punctuation,
        num_words = v_num_words, stopwords = v_stopwords, labeldict = v_labeldict,
        bos = v_bos, eos = v_eos\<rparr>
     ))))))))))))))))))"

section \<open>Runs and what is observed of them\<close>

text \<open>A run starts with an empty trace and yields the outcome and the calls made.\<close>

definition run :: "('x, 'v, 'a) script \<Rightarrow> 'x \<Rightarrow> (exn + 'a) \<times> 'v event list" where
  "run m x = (case m \<lparr>extern = x, trace = []\<rparr> of (r, s) \<Rightarrow> (r, trace s))"

text \<open>Every outcome of \<open>m\<close>, started with trace \<open>tr\<close>, satisfies \<open>Q\<close>.\<close>

definition post ::
  "('x, 'v, 'a) script \<Rightarrow> 'x \<Rightarrow> 'v event list \<Rightarrow>
     (exn + 'a \<Rightarrow> 'v event list \<Rightarrow> bool) \<Rightarrow> bool" where
  "post m x tr Q = (case m \<lparr>extern = x, trace = tr\<rparr> of (r, s) \<Rightarrow> Q r (trace s))"

text \<open>
  \<open>each_after P Q\<close>: every event satisfying \<open>Q\<close> comes strictly after some event
  satisfying \<open>P\<close>. \<open>done_before P Q\<close>: how many events satisfying \<open>P\<close> come before the
  first event satisfying \<open>Q\<close>, if there is one.
\<close>

fun each_after :: "('e \<Rightarrow> bool) \<Rightarrow> ('e \<Rightarrow> bool) \<Rightarrow> 'e list \<Rightarrow> bool" where
  "each_after P Q [] = True"
| "each_after P Q (e # es) = (\<not> Q e \<and> (P e \<or> each_after P Q es))"

fun done_before :: "('e \<Rightarrow> bool) \<Rightarrow> ('e \<Rightarrow> bool) \<Rightarrow> 'e list \<Rightarrow> nat option" where
  "done_before P Q [] = None"
| "done_before P Q (e # es) =
     (if Q e then Some 0
      else map_option (\<lambda>n. if P e then Suc n else n) (done_before P Q es))"

text \<open>Kinds of calls.\<close>

fun is_read_data :: "'v call \<Rightarrow> bool" where
  "is_read_data (ReadData P p) = True"
| "is_read_data c = False"

fun is_transform :: "'v call \<Rightarrow> bool" where
  "is_transform (TransformToIndices P d) = True"
| "is_transform c = False"

fun is_build_worddict :: "'v call \<Rightarrow> bool" where
  "is_build_worddict (BuildWorddict P d) = True"
| "is_build_worddict c = False"

fun is_embedding :: "'v call \<Rightarrow> bool" where
  "is_embedding (BuildEmbeddingMatrix P p) = True"
| "is_embedding c = False"

definition is_dataset_or_embedding :: "'v call \<Rightarrow> bool" where
  "is_dataset_or_embedding c = (is_read_data c \<or> is_transform c \<or> is_embedding c)"

text \<open>The remaining uses of the \<^verbatim>\<open>Preprocessor\<close>: construction and the vocabulary.\<close>

fun is_vocabulary_or_new :: "'v call \<Rightarrow> bool" where
  "is_vocabulary_or_new (NewPreprocessor kw) = True"
| "is_vocabulary_or_new (BuildWorddict P d) = True"
| "is_vocabulary_or_new (GetWorddict P) = True"
| "is_vocabulary_or_new c = False"

text \<open>The Python name of a \<^verbatim>\<open>Preprocessor\<close> method call, empty for any other call.\<close>

fun method_name :: "'v call \<Rightarrow> string" where
  "method_name (ReadData P p) = ''read_data''"
| "method_name (BuildWorddict P d) = ''build_worddict''"
| "method_name (TransformToIndices P d) = ''transform_to_indices''"
| "method_name (BuildEmbeddingMatrix P p) = ''build_embedding_matrix''"
| "method_name c = []"

definition methods_called :: "'v event list \<Rightarrow> string list" where
  "methods_called tr = filter (\<lambda>n. n \<noteq> []) (map (method_name \<circ> call_of) tr)"

text \<open>The object each \<^verbatim>\<open>Preprocessor\<close> method call is made on.\<close>

fun receiver :: "'v call \<Rightarrow> 'v list" where
  "receiver (ReadData P p) = [P]"
| "receiver (BuildWorddict P d) = [P]"
| "receiver (GetWorddict P) = [P]"
| "receiver (TransformToIndices P d) = [P]"
| "receiver (BuildEmbeddingMatrix P p) = [P]"
| "receiver c = []"

text \<open>Paths: of the files read as datasets, opened for writing, pickled into, created.\<close>

fun read_path :: "'v call \<Rightarrow> string list" where
  "read_path (ReadData P p) = [p]"
| "read_path c = []"

fun opened_path :: "'v call \<Rightarrow> string list" where
  "opened_path (OpenWb p) = [p]"
| "opened_path c = []"

fun written_path :: "'v call \<Rightarrow> string list" where
  "written_path (OpenWb p) = [p]"
| "written_path (PickleDump v p) = [p]"
| "written_path c = []"

fun made_dir :: "'v call \<Rightarrow> string list" where
  "made_dir (OsMakedirs p) = [p]"
| "made_dir c = []"

definition read_paths :: "'v event list \<Rightarrow> string list" where
  "read_paths tr = concat (map (read_path \<circ> call_of) tr)"

definition opened_paths :: "'v event list \<Rightarrow> string list" where
  "opened_paths tr = concat (map (opened_path \<circ> call_of) tr)"

definition written_paths :: "'v event list \<Rightarrow> string list" where
  "written_paths tr = concat (map (written_path \<circ> call_of) tr)"

definition made_dirs :: "'v event list \<Rightarrow> string list" where
  "made_dirs tr = concat (map (made_dir \<circ> call_of) tr)"

text \<open>The completed pickle writes: path and object.\<close>

fun pickled_by :: "'v event \<Rightarrow> (string \<times> 'v) list" where
  "pickled_by (Done (PickleDump v p) r) = [(p, v)]"
| "pickled_by e = []"

definition pickled :: "'v event list \<Rightarrow> (string \<times> 'v) list" where
  "pickled tr = concat (map pickled_by tr)"

definition output_names :: "string list" where
  "output_names =
     [''worddict.pkl'', ''train_data.pkl'', ''dev_data.pkl'', ''test_data.pkl'',
      ''embeddings.pkl'']"

definition output_paths :: "string \<Rightarrow> string list" where
  "output_paths targetdir = map (os_path_join targetdir) output_names"

text \<open>Events: a completed call of a kind, a library call that returned the object \<open>v\<close>.\<close>

fun completed :: "('v call \<Rightarrow> bool) \<Rightarrow> 'v event \<Rightarrow> bool" where
  "completed K (Done c r) = K c"
| "completed K (Failed c e) = False"

fun returned :: "'v \<Rightarrow> 'v event \<Rightarrow> bool" where
  "returned v (Done c (Obj w)) = (w = v \<and> (method_name c \<noteq> [] \<or> is_vocabulary_or_new c))"
| "returned v e = False"

fun is_json_load :: "'v call \<Rightarrow> bool" where
  "is_json_load (JsonLoad p) = True"
| "is_json_load c = False"

fun is_startup :: "'v call \<Rightarrow> bool" where
  "is_startup (ParseArgs p argv) = True"
| "is_startup (OpenR p) = True"
| "is_startup (JsonLoad p) = True"
| "is_startup c = False"

text \<open>\<^verbatim>\<open>os.path.basename\<close>: what follows the last separator.\<close>

definition basename :: "string \<Rightarrow> string" where
  "basename p = rev (takeWhile (\<lambda>c. c \<noteq> CHR ''/'') (rev p))"

fun writes_named :: "string \<Rightarrow> 'v call \<Rightarrow> bool" where
  "writes_named n (OpenWb p) = (basename p = n)"
| "writes_named n (PickleDump v p) = (basename p = n)"
| "writes_named n c = False"

section \<open>Test doubles for the collaborators\<close>

text \<open>
  An environment in which the input directory holds the names \<open>listing\<close>, the target
  directory does not exist yet, reading a directory as a dataset fails as \<^verbatim>\<open>open\<close>
  does, and every other call succeeds. Library objects are strings; the external state
  is the list of pickled files.
\<close>

definition stub_config :: pyval where
  "stub_config =
     PDict [(''data_dir'', PStr ''data''), (''embeddings_file'', PStr ''glove.txt''),
            (''target_dir'', PStr ''out''), (''lowercase'', PBool False),
            (''ignore_punctuation'', PBool False), (''num_words'', PNone),
            (''stopwords'', PList []),
            (''labeldict'', PDict [(''entailment'', PInt 0), (''neutral'', PInt 1),
                                   (''contradiction'', PInt 2)]),
            (''bos'', PStr ''_BOS_''), (''eos'', PStr ''_EOS_'')]"

definition stub_kwargs :: kwargs where
  "stub_kwargs =
     \<lparr>lowercase = PBool False, ignore_punctuation = PBool False, num_words = PNone,
      stopwords = PList [], labeldict = PDict [], bos = PNone, eos = PNone\<rparr>"

definition stub_env :: "string list \<Rightarrow> ((string \<times> string) list, string) env" where
  "stub_env listing =
     \<lparr>os_path_exists = (\<lambda>p x. False),
      os_makedirs = (\<lambda>p x. Inr ((), x)),
      os_listdir = (\<lambda>p x. Inr (listing, x)),
      os_path_normpath = (\<lambda>p. p),
      open_wb = (\<lambda>p x. Inr ((), x)),
      pickle_dump = (\<lambda>v p x. Inr ((), (p, v) # x)),
      Preprocessor = (\<lambda>kw x. Inr (''preprocessor'', x)),
      read_data = (\<lambda>self p x.
        if p = [] \<or> last p = CHR ''/'' then Inl (Raised ''IsADirectoryError'')
        else Inr (''data of '' @ p, x)),
      build_worddict = (\<lambda>self d x. Inr ((), x)),
      worddict = (\<lambda>self x. Inr (''worddict'', x)),
      transform_to_indices = (\<lambda>self d x. Inr (''indices of '' @ d, x)),
      build_embedding_matrix = (\<lambda>self p x. Inr (''matrix of '' @ p, x)),
      parse_args = (\<lambda>p argv x.
        Inr (map (\<lambda>a. (dest a, default_value a))
               (filter (\<lambda>a. default_value a \<noteq> PStr ''==SUPPRESS=='') (actions p)), x)),
      open_r = (\<lambda>p x. Inr ((), x)),
      json_load = (\<lambda>p x. Inr (stub_config, x))\<rparr>"

definition snli_listing :: "string list" where
  "snli_listing =
     [''snli_1.0_dev.txt'', ''README.txt'', ''snli_1.0_test.txt'', ''snli_1.0_train.txt'']"

text \<open>Events that return a library object or complete a pickle write.\<close>

fun yields :: "'v event \<Rightarrow> bool" where
  "yields (Done c (Obj v)) = True"
| "yields (Done (PickleDump v p) r) = True"
| "yields e = False"

text \<open>
  Two runs of \<^verbatim>\<open>preprocess_SNLI_data\<close> with the test doubles: on a directory holding
  the three SNLI files, and on an empty directory.
\<close>

definition stub_run :: "(exn + unit) \<times> string event list" where
  "stub_run =
     run (preprocess_SNLI_data (stub_env snli_listing) ''data'' ''glove.txt'' ''out''
            stub_kwargs) []"

definition stub_run_empty :: "(exn + unit) \<times> string event list" where
  "stub_run_empty =
     run (preprocess_SNLI_data (stub_env []) ''data'' ''glove.txt'' ''out'' stub_kwargs) []"

section \<open>Facts about patterns, selection and paths\<close>

lemma fnmatchcase_literal: "literal ps \<Longrightarrow> fnmatchcase n ps = (n = ps)"
  by (induction n ps rule: fnmatchcase.induct) (auto simp: literal_def)

lemma fnmatchcase_star_literal:
  "literal ps \<Longrightarrow> fnmatchcase n (CHR ''*'' # ps) = suffix ps n"
proof (induction n)
  case Nil
  then show ?case by (cases ps) (auto simp: literal_def)
next
  case (Cons c cs)
  then show ?case
    by (auto simp: fnmatchcase_literal suffix_Cons)
qed

lemma fnmatch_train: "fnmatch f ''*_train.txt'' = suffix ''_train.txt'' f"
  unfolding fnmatch_def by (rule fnmatchcase_star_literal) (simp add: literal_def)

lemma fnmatch_dev: "fnmatch f ''*_dev.txt'' = suffix ''_dev.txt'' f"
  unfolding fnmatch_def by (rule fnmatchcase_star_literal) (simp add: literal_def)

lemma fnmatch_test: "fnmatch f ''*_test.txt'' = suffix ''_test.txt'' f"
  unfolding fnmatch_def by (rule fnmatchcase_star_literal) (simp add: literal_def)

lemma suffix_clash:
  assumes "suffix a f" and "suffix b f"
  shows "suffix a b \<or> suffix b a"
  using assms by (metis suffix_same_cases)

lemma names_no_suffix:
  "\<not> suffix ''_train.txt'' ''_dev.txt''" "\<not> suffix ''_dev.txt'' ''_train.txt''"
  "\<not> suffix ''_train.txt'' ''_test.txt''" "\<not> suffix ''_test.txt'' ''_train.txt''"
  "\<not> suffix ''_dev.txt'' ''_test.txt''" "\<not> suffix ''_test.txt'' ''_dev.txt''"
  by (simp_all add: suffix_Cons)

lemma patterns_disjoint:
  "\<not> (fnmatch f ''*_train.txt'' \<and> fnmatch f ''*_dev.txt'')"
  "\<not> (fnmatch f ''*_train.txt'' \<and> fnmatch f ''*_test.txt'')"
  "\<not> (fnmatch f ''*_dev.txt'' \<and> fnmatch f ''*_test.txt'')"
  unfolding fnmatch_train fnmatch_dev fnmatch_test
  using suffix_clash [of "''_train.txt''" f "''_dev.txt''"]
    suffix_clash [of "''_train.txt''" f "''_test.txt''"]
    suffix_clash [of "''_dev.txt''" f "''_test.txt''"] names_no_suffix
  by blast+

lemma no_match_empty:
  "\<not> fnmatch [] ''*_train.txt''" "\<not> fnmatch [] ''*_dev.txt''" "\<not> fnmatch [] ''*_test.txt''"
  by (simp_all add: fnmatch_def)

lemma select_files_snoc:
  "select_files (listing @ [f]) = select_step (select_files listing) f"
  by (simp add: select_files_def)

lemma select_files_eq:
  "select_files listing =
     \<lparr>train_file = last ([] # filter (\<lambda>f. fnmatch f ''*_train.txt'') listing),
      dev_file = last ([] # filter (\<lambda>f. fnmatch f ''*_dev.txt'') listing),
      test_file = last ([] # filter (\<lambda>f. fnmatch f ''*_test.txt'') listing)\<rparr>"
proof (induction listing rule: rev_induct)
  case Nil
  show ?case by (simp add: select_files_def)
next
  case (snoc f listing)
  show ?case
    using patterns_disjoint [of f]
    by (simp add: select_files_snoc snoc.IH select_step_def)
qed

lemma last_default_eq:
  assumes "f \<noteq> []"
  shows "(last ([] # filter P listing) = f) =
         (filter P listing \<noteq> [] \<and> last (filter P listing) = f)"
  using assms by auto

lemma last_filter_holds:
  assumes "filter P listing \<noteq> []"
  shows "P (last (filter P listing)) \<and> last (filter P listing) \<in> set listing"
proof -
  from assms have "last (filter P listing) \<in> set (filter P listing)"
    by (rule last_in_set)
  then show ?thesis by simp
qed

lemma takeWhile_no_sep:
  "CHR ''/'' \<notin> set n \<Longrightarrow> takeWhile (\<lambda>c. c \<noteq> CHR ''/'') (rev n @ CHR ''/'' # r) = rev n"
  by (induction n rule: rev_induct) auto

lemma basename_append:
  "CHR ''/'' \<notin> set n \<Longrightarrow> basename (t @ CHR ''/'' # n) = n"
  by (simp add: basename_def takeWhile_no_sep)

lemma basename_plain:
  assumes "CHR ''/'' \<notin> set n"
  shows "basename n = n"
proof -
  have h: "takeWhile (\<lambda>c. c \<noteq> CHR ''/'') (rev n) = rev n"
    using assms by (auto simp: takeWhile_eq_all_conv)
  show ?thesis unfolding basename_def h by simp
qed

lemma basename_join:
  assumes "CHR ''/'' \<notin> set n"
  shows "basename (os_path_join t n) = n"
proof (cases "t = [] \<or> last t = CHR ''/''")
  case True
  show ?thesis
  proof (cases "t = []")
    case True
    with assms show ?thesis
      by (cases n) (auto simp: os_path_join_def basename_plain)
  next
    case False
    with True have "t = butlast t @ [CHR ''/'']"
      by (metis append_butlast_last_id)
    then have h: "t @ n = butlast t @ CHR ''/'' # n"
      by (metis append_Cons append_Nil append_assoc)
    have "basename (t @ n) = n"
      unfolding h by (rule basename_append [OF assms])
    with assms True show ?thesis
      by (cases n) (auto simp: os_path_join_def)
  qed
next
  case False
  with assms show ?thesis
    using basename_append [OF assms, of t]
    by (cases n) (auto simp: os_path_join_def)
qed

lemma each_after_iff:
  "each_after P Q es \<longleftrightarrow> (\<forall>k<length es. Q (es ! k) \<longrightarrow> (\<exists>j<k. P (es ! j)))"
proof (induction es)
  case Nil
  show ?case by simp
next
  case (Cons e es)
  show ?case 
    by (auto simp: Cons.IH All_less_Suc2 Ex_less_Suc2)
qed

section \<open>Rules for following a script call by call\<close>

lemma post_seq_call:
  assumes "\<And>e. Q (Inl e) (tr @ [Failed c e])"
    and "\<And>a x'. post (g a) x' (tr @ [Done c (r a)]) Q"
  shows "post (seq (call c f r) g) x tr Q"
  using assms by (simp add: post_def seq_def call_def split: sum.splits prod.splits)

lemma post_call:
  assumes "\<And>e. Q (Inl e) (tr @ [Failed c e])"
    and "\<And>a. Q (Inr a) (tr @ [Done c (r a)])"
  shows "post (call c f r) x tr Q"
  using assms by (simp add: post_def call_def split: sum.splits prod.splits)

lemma post_seq_print:
  assumes "post (g ()) x (tr @ [Done (Print txt) Unit]) Q"
  shows "post (seq (print txt) g) x tr Q"
  using assms by (simp add: post_def seq_def call_def print_def)

lemma post_seq_ret:
  assumes "post (g a) x tr Q"
  shows "post (seq (ret a) g) x tr Q"
  using assms by (simp add: post_def seq_def ret_def)

lemma post_seq_lift:
  assumes "\<And>e. Q (Inl e) tr" and "\<And>a. post (g a) x tr Q"
  shows "post (seq (lift v) g) x tr Q"
  using assms by (simp add: post_def seq_def lift_def ret_def raise_def split: sum.splits)

lemma post_seq_if:
  assumes "b \<Longrightarrow> post (seq m g) x tr Q" and "\<not> b \<Longrightarrow> post (seq n g) x tr Q"
  shows "post (seq (if b then m else n) g) x tr Q"
  using assms by simp

lemma seq_assoc: "seq (seq m f) g = seq m (\<lambda>a. seq (f a) g)"
  by (rule ext) (simp add: seq_def split: sum.splits prod.splits)

lemma post_seq_pickle_to:
  assumes "post (seq (call (OpenWb path) (open_wb env path) (\<lambda>_. Unit)) (\<lambda>_.
     seq obj (\<lambda>v.
     seq (call (PickleDump v path) (pickle_dump env v path) (\<lambda>_. Unit)) g))) x tr Q"
  shows "post (seq (pickle_to env path obj) g) x tr Q"
  using assms by (simp add: pickle_to_def seq_assoc)

lemma post_pickle_to:
  assumes "post (seq (call (OpenWb path) (open_wb env path) (\<lambda>_. Unit)) (\<lambda>_.
     seq obj (\<lambda>v. call (PickleDump v path) (pickle_dump env v path) (\<lambda>_. Unit)))) x tr Q"
  shows "post (pickle_to env path obj) x tr Q"
  using assms by (simp add: pickle_to_def)

lemmas vcg = post_seq_call post_call post_seq_print post_seq_ret post_seq_if
  post_seq_pickle_to post_pickle_to post_seq_lift

lemma run_post:
  assumes "post m x [] Q" and "run m x = (r, tr)"
  shows "Q r tr"
  using assms by (auto simp: post_def run_def split: prod.splits)

lemmas observers = pickled_def opened_paths_def output_paths_def output_names_def
  read_paths_def written_paths_def made_dirs_def methods_called_def is_dataset_or_embedding_def

lemmas eval = stub_run_def stub_run_empty_def run_def preprocess_SNLI_data_def seq_def
  call_def print_def ret_def pickle_to_def stub_env_def select_files_eq fnmatch_train
  fnmatch_dev fnmatch_test suffix_Cons os_path_join_def snli_listing_def

section \<open>The claims\<close>

subsection \<open>Selection of the dataset files\<close>

text \<open>
  Claim C2, as stated, fails: a name matching \<^verbatim>\<open>*_train.txt\<close> is not chosen as the train
  file when a later name of the listing matches too.
\<close>

theorem select_by_pattern_counterexample:
  "fnmatch ''a_train.txt'' ''*_train.txt'' \<and>
   train_file (select_files [''a_train.txt'', ''b_train.txt'']) \<noteq> ''a_train.txt''"
  by (simp add: fnmatch_train select_files_eq suffix_Cons)

text \<open>
  Claim C2, amended: a name of the listing is chosen as the train file if and only if it
  matches \<^verbatim>\<open>*_train.txt\<close> and is the last name of the listing that does; likewise for
  the dev file with \<^verbatim>\<open>*_dev.txt\<close> and the test file with \<^verbatim>\<open>*_test.txt\<close>. Nothing but the
  names and their order in the listing enters the choice.
\<close>

theorem select_by_pattern:
  assumes "f \<in> set listing" and "f \<noteq> []"
  shows "(train_file (select_files listing) = f \<longleftrightarrow>
            fnmatch f ''*_train.txt'' \<and>
            last (filter (\<lambda>g. fnmatch g ''*_train.txt'') listing) = f)
       \<and> (dev_file (select_files listing) = f \<longleftrightarrow>
            fnmatch f ''*_dev.txt'' \<and>
            last (filter (\<lambda>g. fnmatch g ''*_dev.txt'') listing) = f)
       \<and> (test_file (select_files listing) = f \<longleftrightarrow>
            fnmatch f ''*_test.txt'' \<and>
            last (filter (\<lambda>g. fnmatch g ''*_test.txt'') listing) = f)"
proof -
  have *: "(last ([] # filter P listing) = f) = (P f \<and> last (filter P listing) = f)" for P
  proof (cases "filter P listing = []")
    case True
    with assms show ?thesis by (auto simp: filter_empty_conv)
  next
    case False
    with last_filter_holds [OF False] show ?thesis by auto
  qed
  show ?thesis
    unfolding select_files_eq files.simps by (intro conjI *)
qed

theorem select_by_pattern_witness:
  "''b_train.txt'' \<in> set [''a_train.txt'', ''b_train.txt''] \<and> ''b_train.txt'' \<noteq> [] \<and>
   train_file (select_files [''a_train.txt'', ''b_train.txt'']) = ''b_train.txt'' \<and>
   fnmatch ''b_train.txt'' ''*_train.txt''"
  using select_by_pattern [of "''b_train.txt''" "[''a_train.txt'', ''b_train.txt'']"]
  by (simp add: fnmatch_train suffix_Cons)

text \<open>
  Claim C9: when several names of the listing match the same pattern, the last of them in
  listing order is the file used (the empty string when none matches), and a name
  matching \<^verbatim>\<open>*_train.txt\<close> is never assigned to the dev or the test slot.
\<close>

theorem last_match_wins:
  "train_file (select_files listing) =
     last ([] # filter (\<lambda>f. fnmatch f ''*_train.txt'') listing)
 \<and> dev_file (select_files listing) =
     last ([] # filter (\<lambda>f. fnmatch f ''*_dev.txt'') listing)
 \<and> test_file (select_files listing) =
     last ([] # filter (\<lambda>f. fnmatch f ''*_test.txt'') listing)
 \<and> (fnmatch f ''*_train.txt'' \<longrightarrow>
      dev_file (select_files listing) \<noteq> f \<and> test_file (select_files listing) \<noteq> f)"
proof -
  have "dev_file (select_files listing) \<noteq> f \<and> test_file (select_files listing) \<noteq> f"
    if m: "fnmatch f ''*_train.txt''"
  proof -
    from m have ne: "f \<noteq> []" using no_match_empty by auto
    from m have nd: "\<not> fnmatch f ''*_dev.txt''" and nt: "\<not> fnmatch f ''*_test.txt''"
      using patterns_disjoint [of f] by auto
    have k: "last ([] # filter P listing) \<noteq> f" if "\<not> P f" for P
      using that ne last_filter_holds [of P listing] by (auto simp: last_default_eq)
    from k [of "\<lambda>g. fnmatch g ''*_dev.txt''"] k [of "\<lambda>g. fnmatch g ''*_test.txt''"] nd nt
    show ?thesis
      unfolding select_files_eq files.simps by simp
  qed
  then show ?thesis
    unfolding select_files_eq files.simps by simp
qed

theorem last_match_wins_witness:
  "fnmatch ''a_train.txt'' ''*_train.txt'' \<and>
   train_file (select_files [''b_train.txt'', ''x_dev.txt'', ''a_train.txt'', ''y_dev.txt''])
     = ''a_train.txt'' \<and>
   dev_file (select_files [''b_train.txt'', ''x_dev.txt'', ''a_train.txt'', ''y_dev.txt''])
     = ''y_dev.txt''"
  using last_match_wins
    [of "[''b_train.txt'', ''x_dev.txt'', ''a_train.txt'', ''y_dev.txt'']" "''a_train.txt''"]
  by (simp add: fnmatch_train fnmatch_dev suffix_Cons)

subsection \<open>What a run of \<^verbatim>\<open>preprocess_SNLI_data\<close> does\<close>

text \<open>
  Claim C3: in every successful run exactly five objects are pickled, into files of the
  target directory: the word dictionary read from the preprocessor into
  \<^verbatim>\<open>worddict.pkl\<close>, the results of the three \<^verbatim>\<open>transform_to_indices\<close> calls into
  \<^verbatim>\<open>train_data.pkl\<close>, \<^verbatim>\<open>dev_data.pkl\<close> and \<^verbatim>\<open>test_data.pkl\<close>, and the result of
  \<^verbatim>\<open>build_embedding_matrix\<close> into \<^verbatim>\<open>embeddings.pkl\<close>; these five files are the only
  ones opened for writing.
\<close>

theorem five_pickles:
  assumes "run (preprocess_SNLI_data env inputdir embeddings_file targetdir kw) x = (Inr (), tr)"
  shows "\<exists>listing P d1 d2 d3 wd t1 t2 t3 m.
      Done (OsListdir inputdir) (Names listing) \<in> set tr
    \<and> filter yields tr =
       [Done (NewPreprocessor kw) (Obj P),
        Done (ReadData P (os_path_join inputdir (train_file (select_files listing)))) (Obj d1),
        Done (GetWorddict P) (Obj wd),
        Done (PickleDump wd (os_path_join targetdir ''worddict.pkl'')) Unit,
        Done (TransformToIndices P d1) (Obj t1),
        Done (PickleDump t1 (os_path_join targetdir ''train_data.pkl'')) Unit,
        Done (ReadData P (os_path_join inputdir (dev_file (select_files listing)))) (Obj d2),
        Done (TransformToIndices P d2) (Obj t2),
        Done (PickleDump t2 (os_path_join targetdir ''dev_data.pkl'')) Unit,
        Done (ReadData P (os_path_join inputdir (test_file (select_files listing)))) (Obj d3),
        Done (TransformToIndices P d3) (Obj t3),
        Done (PickleDump t3 (os_path_join targetdir ''test_data.pkl'')) Unit,
        Done (BuildEmbeddingMatrix P embeddings_file) (Obj m),
        Done (PickleDump m (os_path_join targetdir ''embeddings.pkl'')) Unit]
    \<and> opened_paths tr = output_paths targetdir"
    (is "?C tr")
proof -
  have "post (preprocess_SNLI_data env inputdir embeddings_file targetdir kw) x []
          (\<lambda>r tr. r = Inr () \<longrightarrow> ?C tr)"
    unfolding preprocess_SNLI_data_def Let_def
    apply (intro vcg)
    apply (simp_all add: observers)
    done
  from run_post [OF this assms] show ?thesis by (rule mp) (rule refl)
qed

theorem five_pickles_witness:
  "fst stub_run = Inr () \<and>
   map fst (pickled (snd stub_run)) =
     [''out/worddict.pkl'', ''out/train_data.pkl'', ''out/dev_data.pkl'',
      ''out/test_data.pkl'', ''out/embeddings.pkl'']"
proof -
  have ok: "fst stub_run = Inr ()"
    by (simp add: eval)
  then have h: "run (preprocess_SNLI_data (stub_env snli_listing) ''data'' ''glove.txt'' ''out''
            stub_kwargs) [] = (Inr (), snd stub_run)"
    unfolding stub_run_def by (metis prod.collapse)
  have "map fst (pickled (snd stub_run)) = map fst (concat (map pickled_by (filter yields (snd stub_run))))"
    by (simp add: eval observers)
  with five_pickles [OF h] ok show ?thesis
    by (auto simp: os_path_join_def)
qed

end
